theory Spec2Isabelle
  imports Complex_Main
begin

section \<open>Strings and dictionaries of the host language\<close>

text \<open>
  A Python \<open>str\<close> is modelled as a \<open>string\<close>; each \<open>char\<close> stands for the code point
  of the same number, so the model covers the code points below 256. Floats occur in the
  program only as literals that are compared, never computed with, and are modelled as
  reals. Logging (\<open>BaseAgent.log\<close>) only prints and is left out.
\<close>

definition nl :: string where
  "nl = ''\<newline>''"

text \<open>\<open>str.isspace\<close> on one character: the white space of Unicode below 256.\<close>

definition isspace :: "char \<Rightarrow> bool" where
  "isspace c = (let n = (of_char c :: nat)
                in (9 \<le> n \<and> n \<le> 13) \<or> (28 \<le> n \<and> n \<le> 32) \<or> n = 133 \<or> n = 160)"

text \<open>
  \<open>str.split()\<close> with no argument: skip white space, take the run of other characters
  as one token, repeat until the string ends.
\<close>

function str_split :: "string \<Rightarrow> string list" where
  "str_split s =
     (case dropWhile isspace s of
        [] \<Rightarrow> []
      | c # r \<Rightarrow> takeWhile (\<lambda>x. \<not> isspace x) (c # r)
                 # str_split (dropWhile (\<lambda>x. \<not> isspace x) (c # r)))"
  by pat_completeness auto
termination
proof (relation "measure length")
  show "wf (measure length)" by simp
next
  fix s :: string and c r
  assume a: "dropWhile isspace s = c # r"
  have "\<not> isspace c" using a by (metis hd_dropWhile list.sel(1) list.distinct(1))
  hence "length (dropWhile (\<lambda>x. \<not> isspace x) (c # r)) \<le> length r"
    by (simp add: length_dropWhile_le)
  moreover have "length (c # r) \<le> length s"
    using a length_dropWhile_le [of isspace s] by simp
  ultimately show "(dropWhile (\<lambda>x. \<not> isspace x) (c # r), s) \<in> measure length"
    by simp
qed

declare str_split.simps [simp del]

text \<open>\<open>str.lower\<close> on one character and on a string.\<close>

definition lower_char :: "char \<Rightarrow> char" where
  "lower_char c = (let n = (of_char c :: nat)
                   in if (65 \<le> n \<and> n \<le> 90) \<or> (192 \<le> n \<and> n \<le> 222 \<and> n \<noteq> 215)
                      then char_of (n + 32) else c)"

definition str_lower :: "string \<Rightarrow> string" where
  "str_lower s = map lower_char s"

text \<open>\<open>sep.join(parts)\<close>.\<close>

fun str_join :: "string \<Rightarrow> string list \<Rightarrow> string" where
  "str_join sep [] = []"
| "str_join sep [x] = x"
| "str_join sep (x # y # ys) = x @ sep @ str_join sep (y # ys)"

text \<open>
  A \<open>dict\<close> keeps its keys in insertion order: \<open>d[k] = v\<close> replaces the value of a key
  that is there and appends a new key at the end.
\<close>

fun dict_set :: "'k \<Rightarrow> 'v \<Rightarrow> ('k \<times> 'v) list \<Rightarrow> ('k \<times> 'v) list" where
  "dict_set k v [] = [(k, v)]"
| "dict_set k v (p # ps) = (if fst p = k then (k, v) # ps else p # dict_set k v ps)"

definition dict_keys :: "('k \<times> 'v) list \<Rightarrow> 'k list" where
  "dict_keys d = map fst d"

section \<open>Data contracts of the stages\<close>

datatype error = ValueError | TypeError

text \<open>
  A section of an outline is a dictionary; \<open>title\<close> is read with \<open>section['title']\<close>,
  the other keys with \<open>.get\<close>, so they are optional here.
\<close>

datatype outline_section = Section
  (title: string)
  (type: string)
  (target_word_count: "int option")
  (key_points: "string list option")
  (subsections: "outline_section list option")

record blog_outline =
  title :: string
  meta_description :: string
  sections :: "outline_section list"
  target_keywords :: "string list"
  estimated_word_count :: int

record blog_post =
  title :: string
  meta_description :: string
  content :: string
  word_count :: int
  "keywords" :: "string list"
  sources :: "string list"

record seo_optimized_post =
  title :: string
  meta_description :: string
  content :: string
  word_count :: int
  "keywords" :: "string list"
  sources :: "string list"
  keyword_density :: "(string \<times> real) list"
  readability_score :: real

record blog_generation_result =
  title :: string
  meta_description :: string
  content :: string
  word_count :: int
  "keywords" :: "string list"
  sources :: "string list"
  keyword_density :: "(string \<times> real) list"
  readability_score :: real
  generation_time :: real

text \<open>One candidate of \<open>_find_trending_topics\<close>.\<close>

record trending_topic =
  title :: string
  relevance_score :: real

text \<open>The dictionary returned by \<open>_gather_information\<close>.\<close>

record research_data =
  related_topics :: "string list"
  key_points :: "string list"
  sources :: "string list"
  "keywords" :: "string list"

text \<open>The dictionary returned by \<open>ResearchAgent.execute\<close>.\<close>

record research_result =
  trending_topics :: "string list"
  selected_topic :: string
  key_findings :: "string list"
  sources :: "string list"
  "keywords" :: "string list"

text \<open>
  The values a context attribute or a metadata entry can hold (\<open>Any\<close> in the source).
  \<open>VTime\<close> is a \<open>datetime\<close>, in microseconds. Every dictionary is a \<open>VDict\<close>; the
  other values do not support item assignment.
\<close>

datatype val =
    VNone
  | VStr string
  | VInt int
  | VFloat real
  | VTime int
  | VList "string list"
  | VOutline blog_outline
  | VPost blog_post
  | VOptimized seo_optimized_post
  | VDict "(string \<times> val) list"

text \<open>The dataclass \<open>AgentContext\<close>: its five fields.\<close>

record agent_context =
  topic :: val
  "keywords" :: val
  target_word_count :: val
  timestamp :: val
  metadata :: val

text \<open>
  The context object that the agents share. Besides the five fields, a Python object has
  the attributes its class and \<open>object\<close> give it (\<open>__class__\<close>, \<open>__dict__\<close>,
  \<open>__doc__\<close>, \<open>__eq__\<close> and so on); which names these are, and what assigning to one
  of them does, belongs to the Python runtime and not to this program.
  \<open>other_attributes\<close> holds that part of the object: \<open>None\<close> for a name the object has
  no attribute for, and otherwise what \<open>setattr\<close> does with a value, given the
  fields: it raises, or it returns the fields as they are afterwards.
\<close>

record context_object = agent_context +
  other_attributes :: "string \<Rightarrow> (val \<Rightarrow> agent_context \<Rightarrow> error + agent_context) option"

definition fields_of :: "context_object \<Rightarrow> agent_context" where
  "fields_of c =
     \<lparr>topic = topic c, agent_context.keywords = agent_context.keywords c,
      agent_context.target_word_count = agent_context.target_word_count c,
      timestamp = timestamp c, metadata = metadata c\<rparr>"

definition with_fields :: "context_object \<Rightarrow> agent_context \<Rightarrow> context_object" where
  "with_fields c f =
     c\<lparr>topic := topic f, agent_context.keywords := agent_context.keywords f,
       agent_context.target_word_count := agent_context.target_word_count f,
       timestamp := timestamp f, metadata := metadata f\<rparr>"

section \<open>BaseAgent\<close>

text \<open>
  \<open>hasattr(self.context, key)\<close>: true for the five fields and for every other
  attribute the object has.
\<close>

definition hasattr :: "context_object \<Rightarrow> string \<Rightarrow> bool" where
  "hasattr c key = (key = ''topic'' \<or> key = ''keywords'' \<or> key = ''target_word_count''
                    \<or> key = ''timestamp'' \<or> key = ''metadata''
                    \<or> other_attributes c key \<noteq> None)"

text \<open>
  \<open>setattr(self.context, key, value)\<close>: a field is overwritten with the value; for
  another attribute that the object has, the object says what happens; a name the object
  has no attribute for becomes a new attribute of the instance, which can be assigned
  again and leaves the fields alone.
\<close>

definition setattr :: "context_object \<Rightarrow> string \<Rightarrow> val \<Rightarrow> error + context_object" where
  "setattr c key v =
     (if key = ''topic'' then Inr (c\<lparr>topic := v\<rparr>)
      else if key = ''keywords'' then Inr (c\<lparr>agent_context.keywords := v\<rparr>)
      else if key = ''target_word_count'' then Inr (c\<lparr>agent_context.target_word_count := v\<rparr>)
      else if key = ''timestamp'' then Inr (c\<lparr>timestamp := v\<rparr>)
      else if key = ''metadata'' then Inr (c\<lparr>metadata := v\<rparr>)
      else (case other_attributes c key of
              None \<Rightarrow>
                Inr (c\<lparr>other_attributes :=
                         (other_attributes c)(key \<mapsto> (\<lambda>v f. Inr f))\<rparr>)
            | Some assign \<Rightarrow>
                (case assign v (fields_of c) of
                   Inl e \<Rightarrow> Inl e
                 | Inr f \<Rightarrow> Inr (with_fields c f))))"

text \<open>
  One round of the loop of \<open>update_context\<close>. Item assignment with a string key on a
  value that is not a dictionary raises \<open>TypeError\<close>.
\<close>

definition update_context_item :: "context_object \<Rightarrow> string \<times> val \<Rightarrow> error + context_object" where
  "update_context_item c kv =
     (case kv of (key, v) \<Rightarrow>
        if hasattr c key then setattr c key v
        else (case metadata c of
                VNone \<Rightarrow> Inr (c\<lparr>metadata := VDict [(key, v)]\<rparr>)
              | VDict d \<Rightarrow> Inr (c\<lparr>metadata := VDict (dict_set key v d)\<rparr>)
              | _ \<Rightarrow> Inl TypeError))"

text \<open>
  The loop of \<open>update_context\<close> over the keyword arguments in the order they were
  written. The context is returned only when no round raised.
\<close>

fun update_context_loop ::
  "context_object \<Rightarrow> (string \<times> val) list \<Rightarrow> error + context_object" where
  "update_context_loop c [] = Inr c"
| "update_context_loop c (kv # kwargs) =
     (case update_context_item c kv of
        Inl e \<Rightarrow> Inl e
      | Inr c' \<Rightarrow> update_context_loop c' kwargs)"

text \<open>
  \<open>update_context(self, **kwargs)\<close>. A keyword argument named \<open>self\<close> collides with
  the first parameter, and the call raises \<open>TypeError\<close> before the body runs.
\<close>

definition update_context ::
  "context_object \<Rightarrow> (string \<times> val) list \<Rightarrow> error + context_object" where
  "update_context c kwargs =
     (if ''self'' \<in> set (map fst kwargs) then Inl TypeError else update_context_loop c kwargs)"

text \<open>The keys of the metadata dictionary; none when it is not a dictionary.\<close>

definition metadata_keys :: "context_object \<Rightarrow> string list" where
  "metadata_keys c = (case metadata c of VDict d \<Rightarrow> dict_keys d | _ \<Rightarrow> [])"

section \<open>ResearchAgent\<close>

text \<open>
  \<open>max(xs, key=f)\<close>: a later element replaces the current best only when its key is
  strictly greater; on an empty list \<open>max\<close> raises \<open>ValueError\<close>.
\<close>

definition py_max :: "('a \<Rightarrow> 'b::linorder) \<Rightarrow> 'a list \<Rightarrow> error + 'a" where
  "py_max f xs =
     (case xs of
        [] \<Rightarrow> Inl ValueError
      | x # rest \<Rightarrow> Inr (foldl (\<lambda>best y. if f best < f y then y else best) x rest))"

text \<open>The candidate list written out in \<open>_find_trending_topics\<close>.\<close>

definition trending_topics_source :: "trending_topic list" where
  "trending_topics_source =
     [\<lparr>trending_topic.title = ''Remote Work Best Practices 2024'', relevance_score = 0.95\<rparr>,
      \<lparr>trending_topic.title = ''AI in HR: Transforming Recruitment'', relevance_score = 0.92\<rparr>,
      \<lparr>trending_topic.title = ''Employee Well-being Strategies'', relevance_score = 0.88\<rparr>]"

text \<open>
  \<open>_find_trending_topics\<close> with the candidate list as a parameter: the source selects
  from the list above, a scraping collaborator would supply another.
\<close>

definition find_trending_topics :: "trending_topic list \<Rightarrow> error + trending_topic" where
  "find_trending_topics candidates = py_max relevance_score candidates"

text \<open>
  The placeholder \<open>_gather_information\<close>: the same data for every topic. The request
  header it builds from the user agent is never sent and is left out.
\<close>

definition gather_information :: "string \<Rightarrow> research_data" where
  "gather_information topic_arg =
     \<lparr>related_topics =
        [''Future of Remote Work'', ''Remote Team Management'', ''Virtual Collaboration Tools''],
      research_data.key_points =
        [''Increased productivity in remote settings'',
         ''Importance of work-life balance'',
         ''Technology requirements for remote work'',
         ''Communication challenges and solutions'',
         ''Best practices for virtual team building''],
      research_data.sources =
        [''Harvard Business Review'',
         ''Society for Human Resource Management'',
         ''LinkedIn Workplace Research''],
      research_data.keywords =
        [''remote work'', ''virtual teams'', ''work from home'', ''remote collaboration'',
         ''digital workplace'']\<rparr>"

text \<open>
  The body of \<open>if not query:\<close> in \<open>ResearchAgent.execute\<close>: select a candidate, write its
  title into the context, and research that title.
\<close>

definition select_topic ::
  "trending_topic list \<Rightarrow> context_object \<Rightarrow> error + (string \<times> context_object)" where
  "select_topic candidates c =
     (case find_trending_topics candidates of
        Inl e \<Rightarrow> Inl e
      | Inr trending_topic \<Rightarrow>
          (case update_context c [(''topic'', VStr (trending_topic.title trending_topic))] of
             Inl e \<Rightarrow> Inl e
           | Inr c' \<Rightarrow> Inr (trending_topic.title trending_topic, c')))"

text \<open>
  \<open>ResearchAgent.execute\<close>, with the two collaborators (the candidate list and the
  gathering step) as parameters. \<open>not query\<close> holds for \<open>None\<close> and for the empty string.
\<close>

definition research_execute_with ::
  "trending_topic list \<Rightarrow> (string \<Rightarrow> research_data) \<Rightarrow> context_object \<Rightarrow> string option
     \<Rightarrow> error + (research_result \<times> context_object)" where
  "research_execute_with candidates gather c query =
     (case (case query of
              None \<Rightarrow> select_topic candidates c
            | Some q \<Rightarrow> if q = [] then select_topic candidates c else Inr (q, c)) of
        Inl e \<Rightarrow> Inl e
      | Inr (q, c1) \<Rightarrow>
          (let research_data = gather q;
               result = \<lparr>trending_topics = related_topics research_data,
                         selected_topic = q,
                         key_findings = research_data.key_points research_data,
                         research_result.sources = research_data.sources research_data,
                         research_result.keywords = research_data.keywords research_data\<rparr>
           in case update_context c1
                     [(''keywords'', VList (research_result.keywords result)),
                      (''metadata'', VDict [(''sources'', VList (research_result.sources result)),
                                            (''key_findings'', VList (key_findings result))])] of
                Inl e \<Rightarrow> Inl e
              | Inr c2 \<Rightarrow> Inr (result, c2)))"

definition research_execute ::
  "context_object \<Rightarrow> string option \<Rightarrow> error + (research_result \<times> context_object)" where
  "research_execute = research_execute_with trending_topics_source gather_information"

section \<open>ContentPlanningAgent\<close>

definition generate_title :: "string \<Rightarrow> string" where
  "generate_title topic_arg = ''The Complete Guide to '' @ topic_arg @ '': Strategies for 2024''"

definition generate_meta_description :: "string \<Rightarrow> string list \<Rightarrow> string" where
  "generate_meta_description topic_arg points =
     ''Discover the latest insights and best practices for '' @ topic_arg
     @ ''. Learn expert strategies for '' @ str_lower (str_join '', '' (take 2 points))
     @ '' and more in this comprehensive guide.''"

definition introduction_section :: outline_section where
  "introduction_section =
     Section ''Introduction'' ''section'' (Some 200)
       (Some [''Context setting'', ''Problem statement'', ''Article overview'']) None"

text \<open>The section built for one key point in the loop of \<open>_create_sections\<close>.\<close>

definition main_section :: "string \<Rightarrow> outline_section" where
  "main_section point =
     Section point ''section'' (Some 300) None
       (Some [Section ''Current Trends'' ''subsection'' (Some 150) None None,
              Section ''Best Practices'' ''subsection'' (Some 150) None None])"

definition conclusion_section :: outline_section where
  "conclusion_section =
     Section ''Conclusion'' ''section'' (Some 200)
       (Some [''Summary of key points'', ''Future implications'', ''Call to action'']) None"

definition create_sections :: "string \<Rightarrow> string list \<Rightarrow> outline_section list" where
  "create_sections topic_arg points =
     foldl (\<lambda>secs point. secs @ [main_section point]) [introduction_section] points
     @ [conclusion_section]"

text \<open>\<open>d.get("target_word_count", 0)\<close> and \<open>d.get("subsections", [])\<close>.\<close>

definition get_target_word_count :: "outline_section \<Rightarrow> int" where
  "get_target_word_count s = (case outline_section.target_word_count s of None \<Rightarrow> 0 | Some n \<Rightarrow> n)"

definition get_subsections :: "outline_section \<Rightarrow> outline_section list" where
  "get_subsections s = (case subsections s of None \<Rightarrow> [] | Some subs \<Rightarrow> subs)"

text \<open>\<open>_calculate_word_count\<close>: the outer loop over the sections, the inner over each
  section's subsections, both adding to one running total.\<close>

definition calculate_word_count :: "outline_section list \<Rightarrow> int" where
  "calculate_word_count secs =
     foldl (\<lambda>total_words s.
              foldl (\<lambda>t sub. t + get_target_word_count sub)
                    (total_words + get_target_word_count s) (get_subsections s))
           0 secs"

definition planning_execute ::
  "context_object \<Rightarrow> research_result \<Rightarrow> error + (blog_outline \<times> context_object)" where
  "planning_execute c research =
     (let topic_arg = selected_topic research;
          points = key_findings research;
          kws = research_result.keywords research;
          meta = generate_meta_description topic_arg points;
          secs = create_sections topic_arg points;
          estimated = calculate_word_count secs;
          outline = \<lparr>blog_outline.title = generate_title topic_arg,
                     blog_outline.meta_description = meta,
                     sections = secs,
                     target_keywords = kws,
                     estimated_word_count = estimated\<rparr>
      in case update_context c
                [(''metadata'', VDict [(''outline'', VOutline outline),
                                      (''meta_description'', VStr meta)])] of
           Inl e \<Rightarrow> Inl e
         | Inr c' \<Rightarrow> Inr (outline, c'))"

section \<open>ContentGenerationAgent\<close>

text \<open>
  \<open>_generate_section_content\<close>: the heading, then two lines for each key point when the
  section has a non-empty \<open>key_points\<close>, then two lines for each subsection when it has a
  non-empty \<open>subsections\<close>; the parts joined by a newline. The research data is not read.
\<close>

definition generate_section_content :: "outline_section \<Rightarrow> research_result \<Rightarrow> string" where
  "generate_section_content s research =
     (let parts0 = [''# '' @ outline_section.title s @ nl];
          parts1 = (case outline_section.key_points s of
                      None \<Rightarrow> parts0
                    | Some points \<Rightarrow>
                        if points = [] then parts0
                        else foldl (\<lambda>parts point.
                                      parts @ [''## '' @ point @ nl,
                                               ''Content about '' @ str_lower point @ ''...'' @ nl])
                                   parts0 points);
          parts2 = (case subsections s of
                      None \<Rightarrow> parts1
                    | Some subs \<Rightarrow>
                        if subs = [] then parts1
                        else foldl (\<lambda>parts sub.
                                      parts @ [''## '' @ outline_section.title sub @ nl,
                                               ''Content about ''
                                               @ str_lower (outline_section.title sub)
                                               @ ''...'' @ nl])
                                   parts1 subs)
      in str_join nl parts2)"

definition generation_execute ::
  "context_object \<Rightarrow> blog_outline \<Rightarrow> research_result \<Rightarrow> error + (blog_post \<times> context_object)" where
  "generation_execute c outline research =
     (let content_sections = map (\<lambda>s. generate_section_content s research) (sections outline);
          full_content = str_join (nl @ nl) content_sections;
          wc = int (length (str_split full_content));
          post = \<lparr>blog_post.title = blog_outline.title outline,
                  blog_post.meta_description = blog_outline.meta_description outline,
                  blog_post.content = full_content,
                  blog_post.word_count = wc,
                  blog_post.keywords = target_keywords outline,
                  blog_post.sources = research_result.sources research\<rparr>
      in case update_context c
                [(''metadata'', VDict [(''blog_post'', VPost post),
                                      (''actual_word_count'', VInt wc)])] of
           Inl e \<Rightarrow> Inl e
         | Inr c' \<Rightarrow> Inr (post, c'))"

section \<open>SEOOptimizationAgent\<close>

definition optimize_title :: "string \<Rightarrow> string" where
  "optimize_title t = t"

definition optimize_meta_description :: "string \<Rightarrow> string" where
  "optimize_meta_description m = m"

definition optimize_content :: "string \<Rightarrow> string list \<Rightarrow> string" where
  "optimize_content text_arg kws = text_arg"

text \<open>The dictionary comprehension \<open>{keyword: 0.02 for keyword in keywords}\<close>.\<close>

definition calculate_keyword_density :: "string \<Rightarrow> string list \<Rightarrow> (string \<times> real) list" where
  "calculate_keyword_density text_arg kws = foldl (\<lambda>d keyword. dict_set keyword 0.02 d) [] kws"

definition calculate_readability_score :: "string \<Rightarrow> real" where
  "calculate_readability_score text_arg = 75.0"

definition seo_execute ::
  "context_object \<Rightarrow> blog_post \<Rightarrow> error + (seo_optimized_post \<times> context_object)" where
  "seo_execute c post =
     (let optimized_title = optimize_title (blog_post.title post);
          optimized_meta = optimize_meta_description (blog_post.meta_description post);
          optimized_content = optimize_content (blog_post.content post) (blog_post.keywords post);
          density = calculate_keyword_density optimized_content (blog_post.keywords post);
          readability = calculate_readability_score optimized_content;
          optimized_post =
            \<lparr>seo_optimized_post.title = optimized_title,
             seo_optimized_post.meta_description = optimized_meta,
             seo_optimized_post.content = optimized_content,
             seo_optimized_post.word_count = int (length (str_split optimized_content)),
             seo_optimized_post.keywords = blog_post.keywords post,
             seo_optimized_post.sources = blog_post.sources post,
             seo_optimized_post.keyword_density = density,
             seo_optimized_post.readability_score = readability\<rparr>
      in case update_context c
                [(''metadata'', VDict [(''optimized_post'', VOptimized optimized_post),
                                      (''keyword_density'',
                                       VDict (map (\<lambda>(k, x). (k, VFloat x)) density)),
                                      (''readability_score'', VFloat readability)])] of
           Inl e \<Rightarrow> Inl e
         | Inr c' \<Rightarrow> Inr (optimized_post, c'))"

section \<open>BlogGenerationOrchestrator\<close>

text \<open>
  \<open>__init__\<close>: the one context that the four agents share. The default of \<open>timestamp\<close>
  is the clock reading taken when the class was defined, a parameter here, as are the
  attributes that the runtime gives the new object besides its fields.
\<close>

definition orchestrator_init ::
  "int \<Rightarrow> int \<Rightarrow> (string \<Rightarrow> (val \<Rightarrow> agent_context \<Rightarrow> error + agent_context) option)
     \<Rightarrow> context_object" where
  "orchestrator_init class_time twc others =
     \<lparr>topic = VStr [], agent_context.keywords = VList [],
      agent_context.target_word_count = VInt twc,
      timestamp = VTime class_time, metadata = VNone,
      other_attributes = others\<rparr>"

text \<open>
  \<open>generate_blog_post\<close>: the four stages in order on the shared context, each stage
  given the output of the one before. An exception of a stage ends the run. The two
  readings of the clock are parameters, in microseconds.
\<close>

definition generate_blog_post_with ::
  "trending_topic list \<Rightarrow> (string \<Rightarrow> research_data) \<Rightarrow> context_object \<Rightarrow> string option
     \<Rightarrow> int \<Rightarrow> int \<Rightarrow> error + (blog_generation_result \<times> context_object)" where
  "generate_blog_post_with candidates gather c topic_arg start_time end_time =
     (case research_execute_with candidates gather c topic_arg of
        Inl e \<Rightarrow> Inl e
      | Inr (research, c1) \<Rightarrow>
     (case planning_execute c1 research of
        Inl e \<Rightarrow> Inl e
      | Inr (outline, c2) \<Rightarrow>
     (case generation_execute c2 outline research of
        Inl e \<Rightarrow> Inl e
      | Inr (post, c3) \<Rightarrow>
     (case seo_execute c3 post of
        Inl e \<Rightarrow> Inl e
      | Inr (optimized_post, c4) \<Rightarrow>
          Inr (\<lparr>blog_generation_result.title = seo_optimized_post.title optimized_post,
                blog_generation_result.meta_description =
                  seo_optimized_post.meta_description optimized_post,
                blog_generation_result.content = seo_optimized_post.content optimized_post,
                blog_generation_result.word_count = seo_optimized_post.word_count optimized_post,
                blog_generation_result.keywords = seo_optimized_post.keywords optimized_post,
                blog_generation_result.sources = seo_optimized_post.sources optimized_post,
                blog_generation_result.keyword_density =
                  seo_optimized_post.keyword_density optimized_post,
                blog_generation_result.readability_score =
                  seo_optimized_post.readability_score optimized_post,
                generation_time = real_of_int (end_time - start_time) / 1000000\<rparr>,
               c4)))))"

definition generate_blog_post ::
  "context_object \<Rightarrow> string option \<Rightarrow> int \<Rightarrow> int
     \<Rightarrow> error + (blog_generation_result \<times> context_object)" where
  "generate_blog_post = generate_blog_post_with trending_topics_source gather_information"


section \<open>Notions of the specification used to state the properties\<close>

text \<open>
  The whitespace-token count of a string, in the words of the specification and without
  reference to \<open>str.split\<close>: the number of positions where a token starts, that is
  where a character that is not white space stands at the start of the string or right
  after white space. The flag says whether the position before is such a boundary.
\<close>

fun token_starts :: "bool \<Rightarrow> string \<Rightarrow> nat" where
  "token_starts boundary [] = 0"
| "token_starts boundary (c # cs) =
     (if \<not> isspace c \<and> boundary then 1 else 0) + token_starts (isspace c) cs"

definition whitespace_token_count :: "string \<Rightarrow> nat" where
  "whitespace_token_count s = token_starts True s"

text \<open>
  The other attributes of the context object in the examples: \<open>__doc__\<close>, which an
  assignment stores on the instance without touching a field, and \<open>__class__\<close>, which
  cannot be set to any value of the model.
\<close>

definition example_attributes ::
  "string \<Rightarrow> (val \<Rightarrow> agent_context \<Rightarrow> error + agent_context) option" where
  "example_attributes name =
     (if name = ''__doc__'' then Some (\<lambda>v f. Inr f)
      else if name = ''__class__'' then Some (\<lambda>v f. Inl TypeError)
      else None)"

text \<open>
  A gathering collaborator that finds nothing: the input of the empty-research
  scenario of the specification.
\<close>

definition gather_nothing :: "string \<Rightarrow> research_data" where
  "gather_nothing topic_arg =
     \<lparr>related_topics = [], research_data.key_points = [], research_data.sources = [],
      research_data.keywords = []\<rparr>"

section \<open>The context updates the stages perform\<close>

lemma update_context_metadata:
  "update_context c [(''metadata'', v)] = Inr (c\<lparr>metadata := v\<rparr>)"
  by (simp add: update_context_def update_context_item_def hasattr_def setattr_def)

lemma update_context_topic:
  "update_context c [(''topic'', v)] = Inr (c\<lparr>topic := v\<rparr>)"
  by (simp add: update_context_def update_context_item_def hasattr_def setattr_def)

lemma update_context_keywords_metadata:
  "update_context c [(''keywords'', k), (''metadata'', v)]
     = Inr (c\<lparr>agent_context.keywords := k, metadata := v\<rparr>)"
  by (simp add: update_context_def update_context_item_def hasattr_def setattr_def)

section \<open>The optimization stage\<close>

lemma seo_execute_eq:
  "seo_execute c post =
     (let optimized =
        \<lparr>seo_optimized_post.title = blog_post.title post,
         seo_optimized_post.meta_description = blog_post.meta_description post,
         seo_optimized_post.content = blog_post.content post,
         seo_optimized_post.word_count = int (length (str_split (blog_post.content post))),
         seo_optimized_post.keywords = blog_post.keywords post,
         seo_optimized_post.sources = blog_post.sources post,
         seo_optimized_post.keyword_density =
           calculate_keyword_density (blog_post.content post) (blog_post.keywords post),
         seo_optimized_post.readability_score = 75\<rparr>
      in Inr (optimized,
              c\<lparr>metadata := VDict
                 [(''optimized_post'', VOptimized optimized),
                  (''keyword_density'',
                   VDict (map (\<lambda>(k, x). (k, VFloat x))
                            (seo_optimized_post.keyword_density optimized))),
                  (''readability_score'', VFloat 75)]\<rparr>))"
  unfolding seo_execute_def Let_def update_context_metadata optimize_title_def
      optimize_meta_description_def optimize_content_def calculate_readability_score_def
  by simp

text \<open>
  Claim C8. For every draft the optimization stage returns a post, and the title, the
  meta description and the content of that post are those of the draft: the three
  optimization steps are identities.
\<close>

theorem seo_identity:
  "\<exists>optimized c'. seo_execute c post = Inr (optimized, c')
     \<and> seo_optimized_post.title optimized = blog_post.title post
     \<and> seo_optimized_post.meta_description optimized = blog_post.meta_description post
     \<and> seo_optimized_post.content optimized = blog_post.content post"
  by (simp add: seo_execute_eq Let_def)

subsection \<open>Dictionaries built by repeated assignment\<close>

lemma map_of_dict_set: "map_of (dict_set k v d) = (map_of d)(k \<mapsto> v)"
  by (induction d) (auto simp: fun_eq_iff)

lemma set_keys_dict_set: "set (dict_keys (dict_set k v d)) = insert k (set (dict_keys d))"
  by (induction d) (auto simp: dict_keys_def)

lemma distinct_keys_dict_set:
  "distinct (dict_keys d) \<Longrightarrow> distinct (dict_keys (dict_set k v d))"
proof (induction d)
  case Nil
  show ?case by (simp add: dict_keys_def)
next
  case (Cons p ps)
  have keys: "set (map fst (dict_set k v ps)) = insert k (set (map fst ps))"
    using set_keys_dict_set [of k v ps] by (simp add: dict_keys_def)
  from Cons show ?case
    by (auto simp: dict_keys_def keys simp del: set_map)
qed

lemma values_dict_set: "set (map snd (dict_set k v d)) \<subseteq> insert v (set (map snd d))"
  by (induction d) auto

lemma density_fold_keys:
  "set (dict_keys (foldl (\<lambda>d keyword. dict_set keyword v d) d0 kws))
     = set (dict_keys d0) \<union> set kws"
  by (induction kws arbitrary: d0) (auto simp: set_keys_dict_set)

lemma density_fold_distinct:
  "distinct (dict_keys d0)
     \<Longrightarrow> distinct (dict_keys (foldl (\<lambda>d keyword. dict_set keyword v d) d0 kws))"
  by (induction kws arbitrary: d0) (auto simp: distinct_keys_dict_set)

lemma density_fold_values:
  "set (map snd (foldl (\<lambda>d keyword. dict_set keyword v d) d0 kws))
     \<subseteq> insert v (set (map snd d0))"
proof (induction kws arbitrary: d0)
  case Nil
  show ?case by auto
next
  case (Cons k ks)
  have "set (map snd (foldl (\<lambda>d keyword. dict_set keyword v d) (dict_set k v d0) ks))
          \<subseteq> insert v (set (map snd (dict_set k v d0)))"
    by (rule Cons.IH)
  also have "\<dots> \<subseteq> insert v (set (map snd d0))"
    using values_dict_set [of k v d0] by auto
  finally show ?case by simp
qed

lemma density_fold_lookup:
  "k \<in> set kws \<Longrightarrow> map_of (foldl (\<lambda>d keyword. dict_set keyword v d) d0 kws) k = Some v"
proof (induction kws arbitrary: d0 rule: rev_induct)
  case Nil
  then show ?case by simp
next
  case (snoc x xs)
  then show ?case by (auto simp: map_of_dict_set)
qed

text \<open>
  Claim C7. For every draft the optimization stage returns a post whose keyword density
  has exactly one entry for each keyword of the draft (its keys are pairwise distinct and
  are the draft's keywords), every value of it lies in [0, 1], and whose readability
  score lies in [0, 100]. A keyword the draft lists twice has one entry.
\<close>

theorem seo_density_shape:
  "\<exists>optimized c'. seo_execute c post = Inr (optimized, c')
     \<and> distinct (dict_keys (seo_optimized_post.keyword_density optimized))
     \<and> set (dict_keys (seo_optimized_post.keyword_density optimized)) = set (blog_post.keywords post)
     \<and> (\<forall>k \<in> set (blog_post.keywords post).
           map_of (seo_optimized_post.keyword_density optimized) k = Some 0.02)
     \<and> (\<forall>v \<in> set (map snd (seo_optimized_post.keyword_density optimized)). 0 \<le> v \<and> v \<le> 1)
     \<and> 0 \<le> seo_optimized_post.readability_score optimized
     \<and> seo_optimized_post.readability_score optimized \<le> 100"
proof -
  let ?d = "calculate_keyword_density (blog_post.content post) (blog_post.keywords post)"
  have d: "distinct (dict_keys ?d)"
    unfolding calculate_keyword_density_def
    by (rule density_fold_distinct) (simp add: dict_keys_def)
  have k: "set (dict_keys ?d) = set (blog_post.keywords post)"
    unfolding calculate_keyword_density_def
    using density_fold_keys [of "0.02::real" "[]" "blog_post.keywords post"]
    by (simp add: dict_keys_def)
  have l: "\<forall>k \<in> set (blog_post.keywords post). map_of ?d k = Some 0.02"
    unfolding calculate_keyword_density_def
    by (simp add: density_fold_lookup)
  have v: "\<forall>v \<in> set (map snd ?d). 0 \<le> v \<and> v \<le> 1"
    using density_fold_values [of "0.02::real" "[]" "blog_post.keywords post"]
    unfolding calculate_keyword_density_def by auto
  show ?thesis
    using d k l v by (simp add: seo_execute_eq Let_def)
qed

theorem seo_density_shape_witness:
  "seo_optimized_post.keyword_density (fst (projr (seo_execute (orchestrator_init 0 2000 example_attributes)
       \<lparr>blog_post.title = ''T'', blog_post.meta_description = ''M'',
        blog_post.content = ''remote work'', blog_post.word_count = 2,
        blog_post.keywords = [''remote work'', ''virtual teams'', ''remote work''],
        blog_post.sources = [''S'']\<rparr>)))
     = [(''remote work'', 0.02), (''virtual teams'', 0.02)]
   \<and> ''remote work'' \<in> set [''remote work'', ''virtual teams'', ''remote work'']
   \<and> (0::real) \<le> 0.02 \<and> (0.02::real) \<le> 1"
  using seo_density_shape [of "orchestrator_init 0 2000 example_attributes"
       "\<lparr>blog_post.title = ''T'', blog_post.meta_description = ''M'',
        blog_post.content = ''remote work'', blog_post.word_count = 2,
        blog_post.keywords = [''remote work'', ''virtual teams'', ''remote work''],
        blog_post.sources = [''S'']\<rparr>"]
  by (simp add: seo_execute_eq Let_def calculate_keyword_density_def)

section \<open>The planning stage\<close>

lemma create_sections_eq:
  "create_sections t points = introduction_section # map main_section points @ [conclusion_section]"
proof -
  have "foldl (\<lambda>secs point. secs @ [main_section point]) acc points
          = acc @ map main_section points" for acc
    by (induction points arbitrary: acc) auto
  then show ?thesis by (simp add: create_sections_def)
qed

lemma inner_word_count:
  "foldl (\<lambda>t sub. t + get_target_word_count sub) a subs
     = a + sum_list (map get_target_word_count subs)"
  by (induction subs arbitrary: a) auto

lemma outer_word_count:
  "foldl (\<lambda>total_words s.
            foldl (\<lambda>t sub. t + get_target_word_count sub)
                  (total_words + get_target_word_count s) (get_subsections s)) a secs
     = a + sum_list (map get_target_word_count secs)
         + sum_list (map get_target_word_count (concat (map get_subsections secs)))"
  by (induction secs arbitrary: a) (auto simp: inner_word_count)

lemma calculate_word_count_sum:
  "calculate_word_count secs
     = sum_list (map get_target_word_count secs)
       + sum_list (map get_target_word_count (concat (map get_subsections secs)))"
  by (simp add: calculate_word_count_def outer_word_count)

lemma main_sections_word_count:
  "sum_list (map get_target_word_count (map main_section points))
     + sum_list (map get_target_word_count (concat (map get_subsections (map main_section points))))
   = 600 * int (length points)"
  by (induction points)
     (auto simp: main_section_def get_target_word_count_def get_subsections_def)

lemma calculate_word_count_create_sections:
  "calculate_word_count (create_sections t points) = 400 + 600 * int (length points)"
  using main_sections_word_count [of points]
  by (simp add: calculate_word_count_sum create_sections_eq introduction_section_def
      conclusion_section_def get_target_word_count_def get_subsections_def)

lemma planning_execute_eq:
  "planning_execute c research =
     (let outline = \<lparr>blog_outline.title = generate_title (selected_topic research),
                     blog_outline.meta_description =
                       generate_meta_description (selected_topic research) (key_findings research),
                     sections = create_sections (selected_topic research) (key_findings research),
                     target_keywords = research_result.keywords research,
                     estimated_word_count =
                       calculate_word_count
                         (create_sections (selected_topic research) (key_findings research))\<rparr>
      in Inr (outline,
              c\<lparr>metadata := VDict
                 [(''outline'', VOutline outline),
                  (''meta_description'', VStr (blog_outline.meta_description outline))]\<rparr>))"
  unfolding planning_execute_def Let_def update_context_metadata by simp

text \<open>
  Claim C3. For a research result with N key findings the planning stage returns an
  outline with N + 2 sections: the introduction, one section for each key finding in
  order, each with the two subsections Current Trends and Best Practices, and the
  conclusion. Its estimated word count is the sum of the target word counts of all
  sections and subsections, which is 400 + 600 * N.
\<close>

theorem planning_outline_shape:
  "\<exists>outline c'. planning_execute c research = Inr (outline, c')
     \<and> length (sections outline) = length (key_findings research) + 2
     \<and> sections outline
         = introduction_section # map main_section (key_findings research) @ [conclusion_section]
     \<and> map outline_section.title (sections outline)
         = ''Introduction'' # key_findings research @ [''Conclusion'']
     \<and> map (\<lambda>s. map outline_section.title (get_subsections s)) (sections outline)
         = [] # replicate (length (key_findings research)) [''Current Trends'', ''Best Practices'']
           @ [[]]
     \<and> estimated_word_count outline
         = sum_list (map get_target_word_count (sections outline))
           + sum_list (map get_target_word_count (concat (map get_subsections (sections outline))))
     \<and> estimated_word_count outline = 400 + 600 * int (length (key_findings research))"
proof -
  have t: "map outline_section.title (map main_section ps) = ps" for ps
    by (induction ps) (auto simp: main_section_def)
  have s: "map (\<lambda>s. map outline_section.title (get_subsections s)) (map main_section ps)
             = replicate (length ps) [''Current Trends'', ''Best Practices'']" for ps
    by (induction ps) (auto simp: main_section_def get_subsections_def)
  let ?secs = "create_sections (selected_topic research) (key_findings research)"
  have secs: "?secs = introduction_section # map main_section (key_findings research)
                        @ [conclusion_section]"
    by (rule create_sections_eq)
  have titles: "map outline_section.title ?secs
                  = ''Introduction'' # key_findings research @ [''Conclusion'']"
    using t [of "key_findings research"]
    by (simp add: secs introduction_section_def conclusion_section_def)
  have subs: "map (\<lambda>s. map outline_section.title (get_subsections s)) ?secs
                = [] # replicate (length (key_findings research))
                         [''Current Trends'', ''Best Practices''] @ [[]]"
    using s [of "key_findings research"]
    by (simp add: secs introduction_section_def conclusion_section_def get_subsections_def)
  have len: "length ?secs = length (key_findings research) + 2"
    by (simp add: secs)
  show ?thesis
    unfolding planning_execute_eq Let_def
    using secs titles subs len
      calculate_word_count_sum [of ?secs]
      calculate_word_count_create_sections [of "selected_topic research" "key_findings research"]
    by simp
qed

section \<open>The generation stage\<close>

lemma token_starts_skip_space:
  "token_starts True (dropWhile isspace s) = token_starts True s"
  by (induction s) auto

lemma token_starts_skip_token:
  "token_starts True (dropWhile (\<lambda>x. \<not> isspace x) s) = token_starts False s"
proof (induction s)
  case Nil
  show ?case by simp
next
  case (Cons c cs)
  show ?case
  proof (cases "isspace c")
    case True
    then show ?thesis by simp
  next
    case False
    then show ?thesis using Cons.IH by simp
  qed
qed

lemma length_str_split: "length (str_split s) = whitespace_token_count s"
  unfolding whitespace_token_count_def
proof (induction s rule: str_split.induct)
  case (1 s)
  show ?case
  proof (cases "dropWhile isspace s")
    case Nil
    have split: "str_split s = []"
      by (subst str_split.simps) (simp only: Nil list.case)
    have "token_starts True s = token_starts True (dropWhile isspace s)"
      by (simp only: token_starts_skip_space)
    also have "\<dots> = 0" by (simp only: Nil token_starts.simps)
    finally show ?thesis by (simp add: split)
  next
    case (Cons c r)
    have nsp: "\<not> isspace c"
      using Cons by (metis hd_dropWhile list.sel(1) list.distinct(1))
    have ih: "length (str_split (dropWhile (\<lambda>x. \<not> isspace x) (c # r)))
                = token_starts True (dropWhile (\<lambda>x. \<not> isspace x) (c # r))"
      using "1.IH" [OF Cons] .
    have "token_starts True s = token_starts True (c # r)"
      using token_starts_skip_space [of s] Cons by simp
    also have "\<dots> = 1 + token_starts False r"
      using nsp by simp
    also have "token_starts False r = token_starts True (dropWhile (\<lambda>x. \<not> isspace x) r)"
      by (simp only: token_starts_skip_token)
    also have "dropWhile (\<lambda>x. \<not> isspace x) r = dropWhile (\<lambda>x. \<not> isspace x) (c # r)"
      using nsp by simp
    finally have "token_starts True s = 1 + length (str_split (dropWhile (\<lambda>x. \<not> isspace x) (c # r)))"
      using ih by simp
    moreover have "str_split s = takeWhile (\<lambda>x. \<not> isspace x) (c # r)
                     # str_split (dropWhile (\<lambda>x. \<not> isspace x) (c # r))"
      by (subst str_split.simps) (simp only: Cons list.case)
    ultimately show ?thesis by simp
  qed
qed

lemma generation_execute_eq:
  "generation_execute c outline research =
     (let post =
        \<lparr>blog_post.title = blog_outline.title outline,
         blog_post.meta_description = blog_outline.meta_description outline,
         blog_post.content =
           str_join (nl @ nl) (map (\<lambda>s. generate_section_content s research) (sections outline)),
         blog_post.word_count =
           int (length (str_split
             (str_join (nl @ nl)
                (map (\<lambda>s. generate_section_content s research) (sections outline))))),
         blog_post.keywords = target_keywords outline,
         blog_post.sources = research_result.sources research\<rparr>
      in Inr (post,
              c\<lparr>metadata := VDict
                 [(''blog_post'', VPost post),
                  (''actual_word_count'', VInt (blog_post.word_count post))]\<rparr>))"
  unfolding generation_execute_def Let_def update_context_metadata by simp

text \<open>
  Claim C5. For every outline the generation stage returns a draft whose content is the
  rendered sections joined by a blank line and whose word count is the number of tokens
  of \<open>content.split()\<close>, which is the whitespace-token count of the content. The
  outline's estimated word count has no influence on the draft.
\<close>

theorem generation_word_count:
  "\<exists>post c'. generation_execute c outline research = Inr (post, c')
     \<and> blog_post.content post
         = str_join (nl @ nl) (map (\<lambda>s. generate_section_content s research) (sections outline))
     \<and> blog_post.word_count post = int (length (str_split (blog_post.content post)))
     \<and> blog_post.word_count post = int (whitespace_token_count (blog_post.content post))
     \<and> generation_execute c (outline\<lparr>estimated_word_count := k\<rparr>) research = Inr (post, c')"
  by (simp add: generation_execute_eq Let_def length_str_split)

section \<open>The research stage\<close>

lemma max_loop:
  "\<exists>i < length (x # rest).
      foldl (\<lambda>best y. if f best < f y then y else best) x rest = (x # rest) ! i
    \<and> (\<forall>j < length (x # rest). f ((x # rest) ! j) \<le> f ((x # rest) ! i))
    \<and> (\<forall>j < i. f ((x # rest) ! j) < f ((x # rest) ! i))"
  for f :: "'a \<Rightarrow> 'b::linorder"
proof (induction rest rule: rev_induct)
  case Nil
  show ?case by simp
next
  case (snoc y ys)
  let ?xs = "x # ys"
  let ?best = "foldl (\<lambda>best y. if f best < f y then y else best) x ys"
  from snoc obtain i where i: "i < length ?xs" "?best = ?xs ! i"
    and ge: "\<forall>j < length ?xs. f (?xs ! j) \<le> f (?xs ! i)"
    and first: "\<forall>j < i. f (?xs ! j) < f (?xs ! i)"
    by blast
  have app: "x # ys @ [y] = ?xs @ [y]" by simp
  show ?case
  proof (cases "f ?best < f y")
    case True
    have "foldl (\<lambda>best y. if f best < f y then y else best) x (ys @ [y]) = y"
      using True by simp
    moreover have "(?xs @ [y]) ! length ?xs = y" by (simp only: nth_append_length)
    moreover have "\<forall>j < length (?xs @ [y]). f ((?xs @ [y]) ! j) \<le> f y"
    proof (intro allI impI)
      fix j assume "j < length (?xs @ [y])"
      then consider "j < length ?xs" | "j = length ?xs" by fastforce
      then show "f ((?xs @ [y]) ! j) \<le> f y"
      proof cases
        case 1
        then have "f ((?xs @ [y]) ! j) = f (?xs ! j)" by (simp only: nth_append if_True)
        also have "\<dots> \<le> f (?xs ! i)" using ge 1 by blast
        also have "\<dots> < f y" using True i by simp
        finally show ?thesis by simp
      next
        case 2
        then show ?thesis by (simp only: nth_append_length order_refl)
      qed
    qed
    moreover have "\<forall>j < length ?xs. f ((?xs @ [y]) ! j) < f y"
    proof (intro allI impI)
      fix j assume 1: "j < length ?xs"
      then have "f ((?xs @ [y]) ! j) = f (?xs ! j)" by (simp only: nth_append if_True)
      also have "\<dots> \<le> f (?xs ! i)" using ge 1 by blast
      also have "\<dots> < f y" using True i by simp
      finally show "f ((?xs @ [y]) ! j) < f y" .
    qed
    ultimately show ?thesis
      unfolding app by (intro exI [of _ "length ?xs"]) simp
  next
    case False
    have keep: "foldl (\<lambda>best y. if f best < f y then y else best) x (ys @ [y]) = ?xs ! i"
      using False i by simp
    have nth: "(?xs @ [y]) ! j = ?xs ! j" if "j < length ?xs" for j
      using that by (simp only: nth_append if_True)
    have "\<forall>j < length (?xs @ [y]). f ((?xs @ [y]) ! j) \<le> f (?xs ! i)"
    proof (intro allI impI)
      fix j assume "j < length (?xs @ [y])"
      then consider "j < length ?xs" | "j = length ?xs" by fastforce
      then show "f ((?xs @ [y]) ! j) \<le> f (?xs ! i)"
      proof cases
        case 1
        then show ?thesis using ge nth by simp
      next
        case 2
        have "(?xs @ [y]) ! j = y" unfolding 2 by (simp only: nth_append_length)
        then show ?thesis using False i by simp
      qed
    qed
    moreover have "\<forall>j < i. f ((?xs @ [y]) ! j) < f (?xs ! i)"
      using first i nth by simp
    ultimately show ?thesis
      unfolding app using i keep nth [of i]
      by (intro exI [of _ i]) simp
  qed
qed

lemma py_max_first_maximum:
  fixes f :: "'a \<Rightarrow> 'b::linorder"
  assumes "xs \<noteq> []"
  shows "\<exists>i < length xs. py_max f xs = Inr (xs ! i)
           \<and> (\<forall>j < length xs. f (xs ! j) \<le> f (xs ! i))
           \<and> (\<forall>j < i. f (xs ! j) < f (xs ! i))"
proof -
  from assms obtain x rest where xs: "xs = x # rest" by (cases xs) auto
  show ?thesis
    unfolding xs py_max_def list.case using max_loop [of x rest f] by blast
qed

lemma select_topic_eq:
  "find_trending_topics candidates = Inr t
     \<Longrightarrow> select_topic candidates c
           = Inr (trending_topic.title t, c\<lparr>topic := VStr (trending_topic.title t)\<rparr>)"
  by (simp add: select_topic_def update_context_topic)

lemma select_topic_empty: "select_topic [] c = Inl ValueError"
  by (simp add: select_topic_def find_trending_topics_def py_max_def)

lemma research_after_selection:
  "research_execute_with candidates gather c query =
     (case (case query of
              None \<Rightarrow> select_topic candidates c
            | Some q \<Rightarrow> if q = [] then select_topic candidates c else Inr (q, c)) of
        Inl e \<Rightarrow> Inl e
      | Inr (q, c1) \<Rightarrow>
          Inr (\<lparr>trending_topics = related_topics (gather q),
                selected_topic = q,
                key_findings = research_data.key_points (gather q),
                research_result.sources = research_data.sources (gather q),
                research_result.keywords = research_data.keywords (gather q)\<rparr>,
               c1\<lparr>agent_context.keywords := VList (research_data.keywords (gather q)),
                  metadata := VDict [(''sources'', VList (research_data.sources (gather q))),
                                     (''key_findings'',
                                      VList (research_data.key_points (gather q)))]\<rparr>))"
  unfolding research_execute_with_def Let_def update_context_keywords_metadata
  by (simp split: sum.splits prod.splits)

lemma research_given_query:
  "q \<noteq> [] \<Longrightarrow>
   research_execute_with candidates gather c (Some q) =
     Inr (\<lparr>trending_topics = related_topics (gather q),
           selected_topic = q,
           key_findings = research_data.key_points (gather q),
           research_result.sources = research_data.sources (gather q),
           research_result.keywords = research_data.keywords (gather q)\<rparr>,
          c\<lparr>agent_context.keywords := VList (research_data.keywords (gather q)),
             metadata := VDict [(''sources'', VList (research_data.sources (gather q))),
                                (''key_findings'',
                                 VList (research_data.key_points (gather q)))]\<rparr>)"
  by (simp add: research_after_selection)

lemma research_absent_query:
  assumes "query = None \<or> query = Some []"
    and "find_trending_topics candidates = Inr t"
  shows "research_execute_with candidates gather c query =
     Inr (\<lparr>trending_topics = related_topics (gather (trending_topic.title t)),
           selected_topic = trending_topic.title t,
           key_findings = research_data.key_points (gather (trending_topic.title t)),
           research_result.sources = research_data.sources (gather (trending_topic.title t)),
           research_result.keywords = research_data.keywords (gather (trending_topic.title t))\<rparr>,
          c\<lparr>topic := VStr (trending_topic.title t),
             agent_context.keywords :=
               VList (research_data.keywords (gather (trending_topic.title t))),
             metadata := VDict
               [(''sources'', VList (research_data.sources (gather (trending_topic.title t)))),
                (''key_findings'',
                 VList (research_data.key_points (gather (trending_topic.title t))))]\<rparr>)"
  using assms by (auto simp: research_after_selection select_topic_eq)

lemma research_absent_no_candidates:
  "query = None \<or> query = Some [] \<Longrightarrow> research_execute_with [] gather c query = Inl ValueError"
  by (auto simp: research_after_selection select_topic_empty)

text \<open>
  Claim C6. When the query is absent (\<open>None\<close> or the empty string) and there is a
  candidate, the research stage returns, selects the first candidate among those of
  maximal relevance score (no candidate scores higher, every earlier one scores strictly
  lower), and writes its title into the topic of the shared context. The witness is the
  scenario of the specification: of Remote Work (0.95) and AI in HR (0.92) the stage
  selects Remote Work. Scores are compared as reals.
\<close>

theorem research_selects_first_maximum:
  assumes "candidates \<noteq> []" and "query = None \<or> query = Some []"
  shows "\<exists>i research c'. i < length candidates
           \<and> research_execute_with candidates gather c query = Inr (research, c')
           \<and> selected_topic research = trending_topic.title (candidates ! i)
           \<and> topic c' = VStr (trending_topic.title (candidates ! i))
           \<and> (\<forall>j < length candidates.
                 relevance_score (candidates ! j) \<le> relevance_score (candidates ! i))
           \<and> (\<forall>j < i. relevance_score (candidates ! j) < relevance_score (candidates ! i))"
proof -
  from py_max_first_maximum [OF assms(1), of relevance_score]
  obtain i where i: "i < length candidates"
    and sel: "find_trending_topics candidates = Inr (candidates ! i)"
    and ge: "\<forall>j < length candidates.
               relevance_score (candidates ! j) \<le> relevance_score (candidates ! i)"
    and first: "\<forall>j < i. relevance_score (candidates ! j) < relevance_score (candidates ! i)"
    unfolding find_trending_topics_def by blast
  show ?thesis
    using i ge first research_absent_query [OF assms(2) sel, of gather c]
    by (intro exI [of _ i]) simp
qed

theorem research_selects_first_maximum_witness:
  "[\<lparr>trending_topic.title = ''Remote Work'', relevance_score = 0.95\<rparr>,
    \<lparr>trending_topic.title = ''AI in HR'', relevance_score = 0.92\<rparr>] \<noteq> []
   \<and> selected_topic (fst (projr (research_execute_with
        [\<lparr>trending_topic.title = ''Remote Work'', relevance_score = 0.95\<rparr>,
         \<lparr>trending_topic.title = ''AI in HR'', relevance_score = 0.92\<rparr>]
        gather_information (orchestrator_init 0 2000 example_attributes) None))) = ''Remote Work''
   \<and> topic (snd (projr (research_execute_with
        [\<lparr>trending_topic.title = ''Remote Work'', relevance_score = 0.95\<rparr>,
         \<lparr>trending_topic.title = ''AI in HR'', relevance_score = 0.92\<rparr>]
        gather_information (orchestrator_init 0 2000 example_attributes) None))) = VStr ''Remote Work''"
proof -
  let ?cs = "[\<lparr>trending_topic.title = ''Remote Work'', relevance_score = 0.95\<rparr>,
              \<lparr>trending_topic.title = ''AI in HR'', relevance_score = 0.92\<rparr>]"
  have ne: "?cs \<noteq> []" by simp
  have q: "(None :: string option) = None \<or> None = Some []" by simp
  from research_selects_first_maximum [OF ne q, of gather_information "orchestrator_init 0 2000 example_attributes"]
  obtain i research c' where i: "i < length ?cs"
    and run: "research_execute_with ?cs gather_information (orchestrator_init 0 2000 example_attributes) None
                = Inr (research, c')"
    and sel: "selected_topic research = trending_topic.title (?cs ! i)"
    and top: "topic c' = VStr (trending_topic.title (?cs ! i))"
    and ge: "\<forall>j < length ?cs. relevance_score (?cs ! j) \<le> relevance_score (?cs ! i)"
    by blast
  have "i = 0"
  proof (rule ccontr)
    assume "i \<noteq> 0"
    with i have i1: "i = 1" by simp
    have "(0::nat) < length ?cs" by simp
    with ge have "relevance_score (?cs ! 0) \<le> relevance_score (?cs ! i)" by blast
    then show False unfolding i1 by simp
  qed
  with run sel top show ?thesis by simp
qed

section \<open>The pipeline\<close>

lemma generate_research_failed:
  "research_execute_with candidates gather c query = Inl e
     \<Longrightarrow> generate_blog_post_with candidates gather c query t0 t1 = Inl e"
  by (simp add: generate_blog_post_with_def)

lemma generate_after_research:
  assumes "research_execute_with candidates gather c query = Inr (research, c1)"
  shows "\<exists>outline c2 post c3 optimized c4.
           planning_execute c1 research = Inr (outline, c2)
         \<and> generation_execute c2 outline research = Inr (post, c3)
         \<and> seo_execute c3 post = Inr (optimized, c4)
         \<and> generate_blog_post_with candidates gather c query t0 t1
             = Inr (\<lparr>blog_generation_result.title = seo_optimized_post.title optimized,
                     blog_generation_result.meta_description =
                       seo_optimized_post.meta_description optimized,
                     blog_generation_result.content = seo_optimized_post.content optimized,
                     blog_generation_result.word_count = seo_optimized_post.word_count optimized,
                     blog_generation_result.keywords = seo_optimized_post.keywords optimized,
                     blog_generation_result.sources = seo_optimized_post.sources optimized,
                     blog_generation_result.keyword_density =
                       seo_optimized_post.keyword_density optimized,
                     blog_generation_result.readability_score =
                       seo_optimized_post.readability_score optimized,
                     generation_time = real_of_int (t1 - t0) / 1000000\<rparr>, c4)
         \<and> outline = fst (projr (planning_execute c research))
         \<and> post = fst (projr (generation_execute c outline research))
         \<and> optimized = fst (projr (seo_execute c post))
         \<and> c2 = c1\<lparr>metadata := metadata c2\<rparr>
         \<and> c3 = c1\<lparr>metadata := metadata c3\<rparr>
         \<and> c4 = c1\<lparr>metadata := metadata c4\<rparr>
         \<and> metadata_keys c2 = [''outline'', ''meta_description'']
         \<and> metadata_keys c3 = [''blog_post'', ''actual_word_count'']
         \<and> metadata_keys c4 = [''optimized_post'', ''keyword_density'', ''readability_score'']"
  unfolding generate_blog_post_with_def assms
  by (simp add: planning_execute_eq generation_execute_eq seo_execute_eq Let_def
      metadata_keys_def dict_keys_def)

lemma research_result_independent_of_context:
  "map_sum id fst (research_execute_with candidates gather c query)
     = map_sum id fst (research_execute_with candidates gather c' query)"
  by (simp add: research_after_selection select_topic_def update_context_topic
      split: option.splits sum.splits)

lemma generate_total:
  "query \<noteq> [] \<Longrightarrow>
   \<exists>result c'. generate_blog_post_with candidates gather c (Some query) t0 t1 = Inr (result, c')"
  using generate_after_research [OF research_given_query [of query candidates gather c]]
  by blast

text \<open>
  Claim C4. In every run that returns, the sources of the research result reach the
  result unchanged: the draft carries the sources of the research result, the optimized
  post those of the draft, and the result those of the optimized post.
\<close>

theorem sources_pass_through:
  assumes "generate_blog_post_with candidates gather c query t0 t1 = Inr (result, c')"
  shows "\<exists>research c1 outline c2 post c3 optimized.
           research_execute_with candidates gather c query = Inr (research, c1)
         \<and> planning_execute c1 research = Inr (outline, c2)
         \<and> generation_execute c2 outline research = Inr (post, c3)
         \<and> seo_execute c3 post = Inr (optimized, c')
         \<and> blog_post.sources post = research_result.sources research
         \<and> seo_optimized_post.sources optimized = blog_post.sources post
         \<and> blog_generation_result.sources result = seo_optimized_post.sources optimized"
proof (cases "research_execute_with candidates gather c query")
  case (Inl e)
  from generate_research_failed [OF Inl, of t0 t1] assms show ?thesis by simp
next
  case (Inr rc)
  obtain research c1 where rc: "rc = (research, c1)" by (cases rc)
  from generate_after_research [OF Inr [unfolded rc], of t0 t1]
  obtain outline c2 post c3 optimized c4 where
    p: "planning_execute c1 research = Inr (outline, c2)" and
    g: "generation_execute c2 outline research = Inr (post, c3)" and
    s: "seo_execute c3 post = Inr (optimized, c4)" and
    r: "generate_blog_post_with candidates gather c query t0 t1
          = Inr (\<lparr>blog_generation_result.title = seo_optimized_post.title optimized,
                  blog_generation_result.meta_description =
                    seo_optimized_post.meta_description optimized,
                  blog_generation_result.content = seo_optimized_post.content optimized,
                  blog_generation_result.word_count = seo_optimized_post.word_count optimized,
                  blog_generation_result.keywords = seo_optimized_post.keywords optimized,
                  blog_generation_result.sources = seo_optimized_post.sources optimized,
                  blog_generation_result.keyword_density =
                    seo_optimized_post.keyword_density optimized,
                  blog_generation_result.readability_score =
                    seo_optimized_post.readability_score optimized,
                  generation_time = real_of_int (t1 - t0) / 1000000\<rparr>, c4)"
    by blast
  from r assms have c4: "c4 = c'"
    and res: "blog_generation_result.sources result = seo_optimized_post.sources optimized"
    by auto
  have gs: "blog_post.sources post = research_result.sources research"
    using g by (auto simp: generation_execute_eq Let_def)
  have ss: "seo_optimized_post.sources optimized = blog_post.sources post"
    using s by (auto simp: seo_execute_eq Let_def)
  show ?thesis
    using Inr rc p g s c4 res gs ss by blast
qed

theorem sources_pass_through_witness:
  "\<not> isl (generate_blog_post (orchestrator_init 0 2000 example_attributes) (Some ''Remote Work'') 0 1)
   \<and> research_result.sources (fst (projr (research_execute (orchestrator_init 0 2000 example_attributes)
        (Some ''Remote Work''))))
      = [''Harvard Business Review'', ''Society for Human Resource Management'',
         ''LinkedIn Workplace Research'']
   \<and> blog_generation_result.sources (fst (projr (generate_blog_post (orchestrator_init 0 2000 example_attributes)
        (Some ''Remote Work'') 0 1)))
      = [''Harvard Business Review'', ''Society for Human Resource Management'',
         ''LinkedIn Workplace Research'']"
proof -
  let ?c = "orchestrator_init 0 2000 example_attributes"
  have ne: "''Remote Work'' \<noteq> []" by simp
  from generate_total [OF ne, of trending_topics_source gather_information ?c 0 1]
  obtain result c' where
    run: "generate_blog_post_with trending_topics_source gather_information ?c
            (Some ''Remote Work'') 0 1 = Inr (result, c')"
    by blast
  from sources_pass_through [OF run]
  obtain research c1 outline c2 post c3 optimized where
    r: "research_execute_with trending_topics_source gather_information ?c (Some ''Remote Work'')
          = Inr (research, c1)" and
    "planning_execute c1 research = Inr (outline, c2)" and
    "generation_execute c2 outline research = Inr (post, c3)" and
    "seo_execute c3 post = Inr (optimized, c')" and
    eqs: "blog_post.sources post = research_result.sources research"
         "seo_optimized_post.sources optimized = blog_post.sources post"
         "blog_generation_result.sources result = seo_optimized_post.sources optimized"
    by (elim exE conjE) (rule that; assumption)
  have "research_result.sources research
          = [''Harvard Business Review'', ''Society for Human Resource Management'',
             ''LinkedIn Workplace Research'']"
    using r by (auto simp: research_given_query gather_information_def)
  with run r eqs show ?thesis
    by (simp add: generate_blog_post_def research_execute_def)
qed

lemma stage_outputs_independent_of_context:
  "fst (projr (planning_execute c research)) = fst (projr (planning_execute c' research))"
  "fst (projr (generation_execute c outline research))
     = fst (projr (generation_execute c' outline research))"
  "fst (projr (seo_execute c post)) = fst (projr (seo_execute c' post))"
  by (simp_all add: planning_execute_eq generation_execute_eq seo_execute_eq Let_def)

lemma generate_result_independent:
  "map_sum id (\<lambda>rc. (fst rc)\<lparr>generation_time := 0\<rparr>)
       (generate_blog_post_with candidates gather c query t0 t1)
     = map_sum id (\<lambda>rc. (fst rc)\<lparr>generation_time := 0\<rparr>)
       (generate_blog_post_with candidates gather c' query t0' t1')"
proof (cases "research_execute_with candidates gather c query")
  case (Inl e)
  with research_result_independent_of_context [of candidates gather c query c']
  have "research_execute_with candidates gather c' query = Inl e"
    by (cases "research_execute_with candidates gather c' query") auto
  with Inl show ?thesis by (simp add: generate_research_failed)
next
  case (Inr rc)
  obtain research c1 where rc: "rc = (research, c1)" by (cases rc)
  with Inr research_result_independent_of_context [of candidates gather c query c']
  obtain c1' where r': "research_execute_with candidates gather c' query = Inr (research, c1')"
    by (cases "research_execute_with candidates gather c' query") auto
  from generate_after_research [OF Inr [unfolded rc], of t0 t1]
       generate_after_research [OF r', of t0' t1']
  show ?thesis
    by (elim exE conjE)
       (simp add: stage_outputs_independent_of_context [where c = c and c' = c'])
qed

text \<open>
  Claim C9. Two runs with the same candidates, the same gathering step and the same
  topic argument agree whatever context each starts from (the second may start from the
  context the first left behind) and whatever the clock reads: if one fails, the other
  fails with the same error, and if one returns, the other returns a result equal to it
  in every field but the generation time.
\<close>

theorem generate_deterministic:
  "(\<forall>e. generate_blog_post_with candidates gather c query t0 t1 = Inl e
        \<longrightarrow> generate_blog_post_with candidates gather c' query t0' t1' = Inl e)
   \<and> (\<forall>r1 c1. generate_blog_post_with candidates gather c query t0 t1 = Inr (r1, c1)
        \<longrightarrow> (\<exists>r2 c2. generate_blog_post_with candidates gather c' query t0' t1' = Inr (r2, c2)
              \<and> blog_generation_result.title r2 = blog_generation_result.title r1
              \<and> blog_generation_result.meta_description r2
                  = blog_generation_result.meta_description r1
              \<and> blog_generation_result.content r2 = blog_generation_result.content r1
              \<and> blog_generation_result.word_count r2 = blog_generation_result.word_count r1
              \<and> blog_generation_result.keywords r2 = blog_generation_result.keywords r1
              \<and> blog_generation_result.sources r2 = blog_generation_result.sources r1
              \<and> blog_generation_result.keyword_density r2
                  = blog_generation_result.keyword_density r1
              \<and> blog_generation_result.readability_score r2
                  = blog_generation_result.readability_score r1))"
proof (intro conjI allI impI)
  fix e
  assume "generate_blog_post_with candidates gather c query t0 t1 = Inl e"
  with generate_result_independent [of candidates gather c query t0 t1 c' t0' t1']
  show "generate_blog_post_with candidates gather c' query t0' t1' = Inl e"
    by (cases "generate_blog_post_with candidates gather c' query t0' t1'") auto
next
  fix r1 c1
  assume run: "generate_blog_post_with candidates gather c query t0 t1 = Inr (r1, c1)"
  with generate_result_independent [of candidates gather c query t0 t1 c' t0' t1']
  obtain r2 c2 where
    run2: "generate_blog_post_with candidates gather c' query t0' t1' = Inr (r2, c2)"
    and eq: "r2\<lparr>generation_time := 0\<rparr> = r1\<lparr>generation_time := 0\<rparr>"
    by (cases "generate_blog_post_with candidates gather c' query t0' t1'") auto
  from eq have
    "blog_generation_result.title r2 = blog_generation_result.title r1"
    "blog_generation_result.meta_description r2 = blog_generation_result.meta_description r1"
    "blog_generation_result.content r2 = blog_generation_result.content r1"
    "blog_generation_result.word_count r2 = blog_generation_result.word_count r1"
    "blog_generation_result.keywords r2 = blog_generation_result.keywords r1"
    "blog_generation_result.sources r2 = blog_generation_result.sources r1"
    "blog_generation_result.keyword_density r2 = blog_generation_result.keyword_density r1"
    "blog_generation_result.readability_score r2 = blog_generation_result.readability_score r1"
    by (cases r1; cases r2; simp)+
  with run2 show "\<exists>r2 c2. generate_blog_post_with candidates gather c' query t0' t1' = Inr (r2, c2)
              \<and> blog_generation_result.title r2 = blog_generation_result.title r1
              \<and> blog_generation_result.meta_description r2
                  = blog_generation_result.meta_description r1
              \<and> blog_generation_result.content r2 = blog_generation_result.content r1
              \<and> blog_generation_result.word_count r2 = blog_generation_result.word_count r1
              \<and> blog_generation_result.keywords r2 = blog_generation_result.keywords r1
              \<and> blog_generation_result.sources r2 = blog_generation_result.sources r1
              \<and> blog_generation_result.keyword_density r2
                  = blog_generation_result.keyword_density r1
              \<and> blog_generation_result.readability_score r2
                  = blog_generation_result.readability_score r1"
    by blast
qed

theorem generate_deterministic_witness:
  "\<not> isl (generate_blog_post (orchestrator_init 0 2000 example_attributes) (Some ''Remote Work'') 0 1)
   \<and> blog_generation_result.content
        (fst (projr (generate_blog_post
           (snd (projr (generate_blog_post (orchestrator_init 0 2000 example_attributes) (Some ''Remote Work'') 0 1)))
           (Some ''Remote Work'') 5 9)))
      = blog_generation_result.content
          (fst (projr (generate_blog_post (orchestrator_init 0 2000 example_attributes) (Some ''Remote Work'') 0 1)))
   \<and> blog_generation_result.word_count
        (fst (projr (generate_blog_post
           (snd (projr (generate_blog_post (orchestrator_init 0 2000 example_attributes) (Some ''Remote Work'') 0 1)))
           (Some ''Remote Work'') 5 9)))
      = blog_generation_result.word_count
          (fst (projr (generate_blog_post (orchestrator_init 0 2000 example_attributes) (Some ''Remote Work'') 0 1)))"
proof -
  have ne: "''Remote Work'' \<noteq> []" by simp
  from generate_total [OF ne, of trending_topics_source gather_information
                         "orchestrator_init 0 2000 example_attributes" 0 1]
  obtain r1 c1 where
    run1: "generate_blog_post_with trending_topics_source gather_information
             (orchestrator_init 0 2000 example_attributes) (Some ''Remote Work'') 0 1 = Inr (r1, c1)"
    by blast
  from generate_deterministic [of trending_topics_source gather_information
         "orchestrator_init 0 2000 example_attributes" "Some ''Remote Work''" 0 1 c1 5 9] run1
  obtain r2 c2 where
    run2: "generate_blog_post_with trending_topics_source gather_information
             c1 (Some ''Remote Work'') 5 9 = Inr (r2, c2)"
    and "blog_generation_result.content r2 = blog_generation_result.content r1"
    and "blog_generation_result.word_count r2 = blog_generation_result.word_count r1"
    by blast
  with run1 show ?thesis by (simp add: generate_blog_post_def)
qed



section \<open>What the metadata holds after each stage\<close>








section \<open>A research stage that finds nothing\<close>

text \<open>
  Claim C2 fails as stated: with a gathering step that returns no key findings and no
  sources, the research result is empty, yet the run does not fail; the planning stage
  is invoked (its outline holds two sections and its title reaches the result) and a
  result with no sources is returned.
\<close>

theorem empty_research_counterexample:
  "key_findings (fst (projr (research_execute_with trending_topics_source gather_nothing
       (orchestrator_init 0 2000 example_attributes) (Some ''Remote Work'')))) = []
   \<and> research_result.sources (fst (projr (research_execute_with trending_topics_source
       gather_nothing (orchestrator_init 0 2000 example_attributes) (Some ''Remote Work'')))) = []
   \<and> \<not> isl (generate_blog_post_with trending_topics_source gather_nothing
       (orchestrator_init 0 2000 example_attributes) (Some ''Remote Work'') 0 1)
   \<and> length (sections (fst (projr (planning_execute
       (snd (projr (research_execute_with trending_topics_source gather_nothing
          (orchestrator_init 0 2000 example_attributes) (Some ''Remote Work''))))
       (fst (projr (research_execute_with trending_topics_source gather_nothing
          (orchestrator_init 0 2000 example_attributes) (Some ''Remote Work'')))))))) = 2
   \<and> blog_generation_result.title (fst (projr (generate_blog_post_with trending_topics_source
       gather_nothing (orchestrator_init 0 2000 example_attributes) (Some ''Remote Work'') 0 1)))
     = ''The Complete Guide to Remote Work: Strategies for 2024''
   \<and> blog_generation_result.sources (fst (projr (generate_blog_post_with trending_topics_source
       gather_nothing (orchestrator_init 0 2000 example_attributes) (Some ''Remote Work'') 0 1))) = []"
proof -
  let ?c = "orchestrator_init 0 2000 example_attributes"
  have ne: "''Remote Work'' \<noteq> []" by simp
  note r = research_given_query [OF ne, of trending_topics_source gather_nothing ?c]
  from generate_after_research [OF r, of 0 1]
  show ?thesis
    unfolding r
    by (elim exE conjE)
       (simp add: gather_nothing_def planning_execute_eq generation_execute_eq seo_execute_eq
          Let_def create_sections_eq generate_title_def)
qed

text \<open>
  Claim C2, amended. The pipeline has no check for an empty research result and no
  error for it. Whenever the research stage returns a result with no key findings or no
  sources, the planning stage is invoked on it and returns the outline made of the
  introduction, one section for each key finding and the conclusion, and the run
  returns a result that carries the sources of the research result. The gathering step
  of the source itself never returns an empty list of key findings or of sources.
\<close>

theorem empty_research_not_rejected:
  assumes "research_execute_with candidates gather c query = Inr (research, c1)"
    and "key_findings research = [] \<or> research_result.sources research = []"
  shows "\<exists>outline c2 result c'.
           planning_execute c1 research = Inr (outline, c2)
         \<and> sections outline
             = introduction_section # map main_section (key_findings research)
               @ [conclusion_section]
         \<and> generate_blog_post_with candidates gather c query t0 t1 = Inr (result, c')
         \<and> blog_generation_result.sources result = research_result.sources research
         \<and> research_data.key_points (gather_information t) \<noteq> []
         \<and> research_data.sources (gather_information t) \<noteq> []"
proof -
  from generate_after_research [OF assms(1), of t0 t1]
  obtain outline c2 post c3 optimized c4 where
    p: "planning_execute c1 research = Inr (outline, c2)" and
    g: "generation_execute c2 outline research = Inr (post, c3)" and
    s: "seo_execute c3 post = Inr (optimized, c4)" and
    run: "generate_blog_post_with candidates gather c query t0 t1
          = Inr (\<lparr>blog_generation_result.title = seo_optimized_post.title optimized,
                  blog_generation_result.meta_description =
                    seo_optimized_post.meta_description optimized,
                  blog_generation_result.content = seo_optimized_post.content optimized,
                  blog_generation_result.word_count = seo_optimized_post.word_count optimized,
                  blog_generation_result.keywords = seo_optimized_post.keywords optimized,
                  blog_generation_result.sources = seo_optimized_post.sources optimized,
                  blog_generation_result.keyword_density =
                    seo_optimized_post.keyword_density optimized,
                  blog_generation_result.readability_score =
                    seo_optimized_post.readability_score optimized,
                  generation_time = real_of_int (t1 - t0) / 1000000\<rparr>, c4)"
    by blast
  have secs: "sections outline
             = introduction_section # map main_section (key_findings research)
               @ [conclusion_section]"
    using p by (auto simp: planning_execute_eq Let_def create_sections_eq)
  have gs: "blog_post.sources post = research_result.sources research"
    using g by (auto simp: generation_execute_eq Let_def)
  have ss: "seo_optimized_post.sources optimized = blog_post.sources post"
    using s by (auto simp: seo_execute_eq Let_def)
  have src: "research_data.key_points (gather_information t) \<noteq> []"
            "research_data.sources (gather_information t) \<noteq> []"
    by (simp_all add: gather_information_def)
  show ?thesis
    using p secs src
    by (intro exI [of _ outline] exI [of _ c2] exI [of _ c4]
          exI [of _ "\<lparr>blog_generation_result.title = seo_optimized_post.title optimized,
                  blog_generation_result.meta_description =
                    seo_optimized_post.meta_description optimized,
                  blog_generation_result.content = seo_optimized_post.content optimized,
                  blog_generation_result.word_count = seo_optimized_post.word_count optimized,
                  blog_generation_result.keywords = seo_optimized_post.keywords optimized,
                  blog_generation_result.sources = seo_optimized_post.sources optimized,
                  blog_generation_result.keyword_density =
                    seo_optimized_post.keyword_density optimized,
                  blog_generation_result.readability_score =
                    seo_optimized_post.readability_score optimized,
                  generation_time = real_of_int (t1 - t0) / 1000000\<rparr>"])
       (simp add: run gs ss)
qed

theorem empty_research_not_rejected_witness:
  "\<not> isl (research_execute_with trending_topics_source gather_nothing
        (orchestrator_init 0 2000 example_attributes) (Some ''Remote Work''))
   \<and> key_findings (fst (projr (research_execute_with trending_topics_source gather_nothing
        (orchestrator_init 0 2000 example_attributes) (Some ''Remote Work'')))) = []
   \<and> \<not> isl (generate_blog_post_with trending_topics_source gather_nothing
        (orchestrator_init 0 2000 example_attributes) (Some ''Remote Work'') 0 1)
   \<and> blog_generation_result.sources (fst (projr (generate_blog_post_with trending_topics_source
        gather_nothing (orchestrator_init 0 2000 example_attributes) (Some ''Remote Work'') 0 1))) = []"
proof -
  let ?c = "orchestrator_init 0 2000 example_attributes"
  have ne: "''Remote Work'' \<noteq> []" by simp
  note r = research_given_query [OF ne, of trending_topics_source gather_nothing ?c]
  have e: "key_findings \<lparr>trending_topics = related_topics (gather_nothing ''Remote Work''),
           selected_topic = ''Remote Work'',
           key_findings = research_data.key_points (gather_nothing ''Remote Work''),
           research_result.sources = research_data.sources (gather_nothing ''Remote Work''),
           research_result.keywords = research_data.keywords (gather_nothing ''Remote Work'')\<rparr> = []
     \<or> research_result.sources \<lparr>trending_topics = related_topics (gather_nothing ''Remote Work''),
           selected_topic = ''Remote Work'',
           key_findings = research_data.key_points (gather_nothing ''Remote Work''),
           research_result.sources = research_data.sources (gather_nothing ''Remote Work''),
           research_result.keywords = research_data.keywords (gather_nothing ''Remote Work'')\<rparr> = []"
    by (simp add: gather_nothing_def)
  from empty_research_not_rejected [OF r e, of 0 1]
  obtain result c' where
    "generate_blog_post_with trending_topics_source gather_nothing ?c (Some ''Remote Work'') 0 1
       = Inr (result, c')"
    "blog_generation_result.sources result
       = research_result.sources \<lparr>trending_topics = related_topics (gather_nothing ''Remote Work''),
           selected_topic = ''Remote Work'',
           key_findings = research_data.key_points (gather_nothing ''Remote Work''),
           research_result.sources = research_data.sources (gather_nothing ''Remote Work''),
           research_result.keywords = research_data.keywords (gather_nothing ''Remote Work'')\<rparr>"
    by blast
  then show ?thesis
    unfolding r by (simp add: gather_nothing_def)
qed

end
